theory Spec2Isabelle
  imports Main "HOL-Library.Word" "HOL-Library.List_Lexorder"
begin

section \<open>JavaScript values\<close>

text \<open>
  The functions of \<^verbatim>\<open>packages/crypto/src/crypto.ts\<close> work on plain JavaScript values. A
  string is a sequence of 16-bit code units, a \<^verbatim>\<open>Uint8Array\<close> a sequence of bytes;
  \<open>str\<close> embeds an ASCII literal. Lists of code units are ordered lexicographically
  (\<^verbatim>\<open>List_Lexorder\<close>), which is the order of JavaScript's \<^verbatim>\<open><\<close> on strings and of
  \<^verbatim>\<open>Array.prototype.sort\<close> without a comparator.
\<close>

type_synonym jsstring = "16 word list"
type_synonym bytes = "8 word list"

definition str :: "string \<Rightarrow> jsstring" where
  "str s = map (\<lambda>c. of_nat (of_char c)) s"

text \<open>
  Numbers are the three non-finite values and the integers that a double holds exactly at
  every magnitude below \<open>2 ^ 53\<close>, given by sign and magnitude (so there is a negative
  zero). JavaScript writes each of these in plain decimal. Numbers with a fractional part, and
  integers from \<open>2 ^ 53\<close> on, are outside the type.
\<close>

datatype jsnum = Integer (negative: bool) (magnitude: "53 word") | NaN | PosInfinity | NegInfinity

text \<open>
  An object is the list of its own enumerable properties in enumeration order (for the
  string keys used here: insertion order). A value is a finite tree of the seven kinds
  below. Outside the type are functions and symbols, objects with a \<^verbatim>\<open>toJSON\<close> method,
  and the two kinds of value on which \<^verbatim>\<open>JSON.stringify\<close> throws a \<^verbatim>\<open>TypeError\<close>: a BigInt
  and an object that contains itself. Nothing below says what the code does on those.
\<close>

datatype jsval =
    JUndefined
  | JNull
  | JBool bool
  | JNumber jsnum
  | JString jsstring
  | JArray "jsval list"
  | JObject "(jsstring \<times> jsval) list"

text \<open>
  A thrown exception or a rejected promise is the left summand of the result. The code
  declares no error classes of its own: everything it can raise comes from the language or
  from a library.
\<close>

datatype error =
    TypeError string
  | Error string
  | SyntaxError
  | OperationError

definition bindE :: "error + 'a \<Rightarrow> ('a \<Rightarrow> error + 'b) \<Rightarrow> error + 'b" where
  "bindE m f = (case m of Inl e \<Rightarrow> Inl e | Inr x \<Rightarrow> f x)"

fun Get :: "jsval \<Rightarrow> jsstring \<Rightarrow> error + jsval" where
  "Get JUndefined P = Inl (TypeError ''Cannot read properties of undefined'')"
| "Get JNull P = Inl (TypeError ''Cannot read properties of null'')"
| "Get (JObject ps) P = Inr (case map_of ps P of None \<Rightarrow> JUndefined | Some v \<Rightarrow> v)"
| "Get v P = Inr JUndefined"

section \<open>JSON.stringify\<close>

text \<open>
  \<^verbatim>\<open>JSON.stringify(value, replacer)\<close> after ECMA-262 (\<^verbatim>\<open>SerializeJSONProperty\<close>,
  \<^verbatim>\<open>SerializeJSONObject\<close>, \<^verbatim>\<open>SerializeJSONArray\<close>, \<^verbatim>\<open>QuoteJSONString\<close>), without
  indentation. When the replacer is an array it becomes the \<^verbatim>\<open>PropertyList\<close>: for
  \<^emph>\<open>every\<close> object met during the traversal, at any depth, the members written are exactly
  the keys of that list which the object has, in the order of the list. Without a replacer
  the members are the object's own keys in enumeration order. Arrays are never filtered.
\<close>

definition hexdigit :: "nat \<Rightarrow> 16 word" where
  "hexdigit n = (if n < 10 then of_nat (48 + n) else of_nat (87 + n))"

definition UnicodeEscape :: "16 word \<Rightarrow> jsstring" where
  "UnicodeEscape c =
     [0x5C, 0x75, hexdigit (unat c div 4096), hexdigit (unat c div 256 mod 16),
      hexdigit (unat c div 16 mod 16), hexdigit (unat c mod 16)]"

definition is_lead :: "16 word \<Rightarrow> bool" where
  "is_lead c = (0xD800 \<le> c \<and> c \<le> 0xDBFF)"

definition is_trail :: "16 word \<Rightarrow> bool" where
  "is_trail c = (0xDC00 \<le> c \<and> c \<le> 0xDFFF)"

text \<open>
  The body of \<^verbatim>\<open>QuoteJSONString\<close>: the two-character escapes, \<^verbatim>\<open>\uXXXX\<close> for the other
  control characters and for lone surrogates, everything else (surrogate pairs included)
  unchanged.
\<close>

fun quote_units :: "jsstring \<Rightarrow> jsstring" where
  "quote_units [] = []"
| "quote_units (c # cs) =
     (if c = 0x08 then [0x5C, 0x62] @ quote_units cs
      else if c = 0x09 then [0x5C, 0x74] @ quote_units cs
      else if c = 0x0A then [0x5C, 0x6E] @ quote_units cs
      else if c = 0x0C then [0x5C, 0x66] @ quote_units cs
      else if c = 0x0D then [0x5C, 0x72] @ quote_units cs
      else if c = 0x22 then [0x5C, 0x22] @ quote_units cs
      else if c = 0x5C then [0x5C, 0x5C] @ quote_units cs
      else if c < 0x20 then UnicodeEscape c @ quote_units cs
      else if is_lead c then
        (case cs of
           [] \<Rightarrow> UnicodeEscape c
         | d # ds \<Rightarrow> if is_trail d then c # d # quote_units ds
                     else UnicodeEscape c @ quote_units cs)
      else if is_trail c then UnicodeEscape c @ quote_units cs
      else c # quote_units cs)"

definition QuoteJSONString :: "jsstring \<Rightarrow> jsstring" where
  "QuoteJSONString s = [0x22] @ quote_units s @ [0x22]"

fun decimal :: "nat \<Rightarrow> jsstring" where
  "decimal n =
     (if n < 10 then [of_nat (48 + n)] else decimal (n div 10) @ [of_nat (48 + n mod 10)])"

declare decimal.simps [simp del]

fun Number_toString :: "jsnum \<Rightarrow> jsstring" where
  "Number_toString (Integer neg m) =
     (if neg \<and> m \<noteq> 0 then 0x2D # decimal (unat m) else decimal (unat m))"
| "Number_toString NaN = str ''NaN''"
| "Number_toString PosInfinity = str ''Infinity''"
| "Number_toString NegInfinity = str ''-Infinity''"

fun is_finite :: "jsnum \<Rightarrow> bool" where
  "is_finite (Integer neg m) = True"
| "is_finite n = False"

fun join :: "jsstring \<Rightarrow> jsstring list \<Rightarrow> jsstring" where
  "join sep [] = []"
| "join sep [x] = x"
| "join sep (x # y # ys) = x @ sep @ join sep (y # ys)"

text \<open>An element that serializes to \<^verbatim>\<open>undefined\<close> is written \<^verbatim>\<open>null\<close> in an array.\<close>

definition array_text :: "jsstring option list \<Rightarrow> jsstring" where
  "array_text elements =
     str ''['' @
     join (str '','') (map (\<lambda>e. case e of None \<Rightarrow> str ''null'' | Some s \<Rightarrow> s) elements) @
     str '']''"

text \<open>
  \<open>members\<close> holds, for each own property, its serialization. A key of the list that the
  object lacks, or whose value serializes to \<^verbatim>\<open>undefined\<close>, writes nothing.
\<close>

definition object_text ::
  "jsstring list option \<Rightarrow> (jsstring \<times> jsstring option) list \<Rightarrow> jsstring" where
  "object_text PropertyList members =
     str ''{'' @
     join (str '','')
       (List.map_filter
          (\<lambda>P. case map_of members P of
                  Some (Some s) \<Rightarrow> Some (QuoteJSONString P @ str '':'' @ s)
                | _ \<Rightarrow> None)
          (case PropertyList of None \<Rightarrow> map fst members | Some K \<Rightarrow> K)) @
     str ''}''"

fun SerializeJSONProperty :: "jsstring list option \<Rightarrow> jsval \<Rightarrow> jsstring option" where
  "SerializeJSONProperty K JUndefined = None"
| "SerializeJSONProperty K JNull = Some (str ''null'')"
| "SerializeJSONProperty K (JBool b) = Some (if b then str ''true'' else str ''false'')"
| "SerializeJSONProperty K (JNumber n) =
     Some (if is_finite n then Number_toString n else str ''null'')"
| "SerializeJSONProperty K (JString s) = Some (QuoteJSONString s)"
| "SerializeJSONProperty K (JArray xs) =
     Some (array_text (map (SerializeJSONProperty K) xs))"
| "SerializeJSONProperty K (JObject ps) =
     Some (object_text K (map (\<lambda>(k, v). (k, SerializeJSONProperty K v)) ps))"

text \<open>
  The replacer array is copied into the \<^verbatim>\<open>PropertyList\<close> without repetitions. The result
  is \<open>None\<close> when JavaScript returns \<^verbatim>\<open>undefined\<close>.
\<close>

definition JSON_stringify :: "jsval \<Rightarrow> jsstring list option \<Rightarrow> jsstring option" where
  "JSON_stringify v replacer =
     SerializeJSONProperty
       (map_option (\<lambda>ks. fold (\<lambda>k acc. if k \<in> set acc then acc else acc @ [k]) ks []) replacer)
       v"

fun Object_keys :: "jsval \<Rightarrow> error + jsstring list" where
  "Object_keys JUndefined = Inl (TypeError ''Cannot convert undefined or null to object'')"
| "Object_keys JNull = Inl (TypeError ''Cannot convert undefined or null to object'')"
| "Object_keys (JObject ps) = Inr (map fst ps)"
| "Object_keys (JArray xs) = Inr (map decimal [0..<length xs])"
| "Object_keys (JString s) = Inr (map decimal [0..<length s])"
| "Object_keys v = Inr []"

section \<open>The platform\<close>

text \<open>
  \<^verbatim>\<open>crypto.ts\<close> calls three collaborators that are not part of the repository: the
  \<^verbatim>\<open>tweetnacl\<close> and \<^verbatim>\<open>tweetnacl-util\<close> packages, the Web Crypto API and the JSON and
  text decoders of the runtime. Their cryptographic and decoding cores are parameters of the
  model, collected in one record; every function of \<^verbatim>\<open>crypto.ts\<close> takes it as its first
  argument.

  \<^item> \<open>encodeBase64\<close>, \<open>decodeBase64\<close>: the base64 codec of \<^verbatim>\<open>tweetnacl-util\<close>. The decoder
    gets whatever value the caller passes and throws on malformed input.
  \<^item> \<open>crypto_sign\<close>, \<open>crypto_sign_open\<close>: the Ed25519 core of \<^verbatim>\<open>tweetnacl\<close> (message and
    secret key to a 64-byte signature; message, signature and public key to a verdict).
  \<^item> \<open>subtle_deriveKey\<close>: \<^verbatim>\<open>crypto.subtle.deriveKey(algorithm, baseKey, derivedKeyType, ...)\<close>.
  \<^item> \<open>subtle_encrypt\<close>, \<open>subtle_decrypt\<close>: AES-GCM with the given nonce and key.
  \<^item> \<open>TextDecoder_decode\<close>, \<open>JSON_parse\<close>: \<^verbatim>\<open>new TextDecoder().decode\<close> and \<^verbatim>\<open>JSON.parse\<close>.
\<close>

datatype Pbkdf2Params =
  Pbkdf2Params (alg_name: jsstring) (alg_salt: bytes) (alg_iterations: jsnum) (alg_hash: jsstring)

record platform =
  encodeBase64 :: "bytes \<Rightarrow> jsstring"
  decodeBase64 :: "jsval \<Rightarrow> error + bytes"
  crypto_sign :: "bytes \<Rightarrow> bytes \<Rightarrow> bytes"
  crypto_sign_open :: "bytes \<Rightarrow> bytes \<Rightarrow> bytes \<Rightarrow> bool"
  subtle_deriveKey :: "Pbkdf2Params \<Rightarrow> bytes \<Rightarrow> jsstring \<times> nat \<Rightarrow> error + bytes"
  subtle_encrypt :: "bytes \<Rightarrow> bytes \<Rightarrow> bytes \<Rightarrow> error + bytes"
  subtle_decrypt :: "bytes \<Rightarrow> bytes \<Rightarrow> bytes \<Rightarrow> error + bytes"
  TextDecoder_decode :: "bytes \<Rightarrow> jsstring"
  JSON_parse :: "jsstring \<Rightarrow> error + jsval"

section \<open>The tweetnacl wrappers\<close>

text \<open>
  What \<^verbatim>\<open>tweetnacl\<close> does before and around its Ed25519 core is modelled as it is. Every
  function of \<^verbatim>\<open>nacl.sign\<close> first calls \<^verbatim>\<open>checkArrayTypes\<close> on its arguments, which throws
  \<^verbatim>\<open>TypeError('unexpected type, use Uint8Array')\<close> for anything that is not a
  \<^verbatim>\<open>Uint8Array\<close>, and then checks the lengths (64-byte secret key and signature, 32-byte
  public key). \<open>jsdata\<close> is the message argument as JavaScript passes it: a string or a
  byte array.
\<close>

datatype jsdata = Text jsstring | Uint8Array bytes

text \<open>
  \<^verbatim>\<open>tweetnacl-util\<close> names its functions after the direction of the \<^emph>\<open>result\<close>:
  \<^verbatim>\<open>encodeBase64(arr: Uint8Array): string\<close> and \<^verbatim>\<open>decodeBase64(s: string): Uint8Array\<close>, as
  \<^verbatim>\<open>crypto.ts\<close> uses them, and likewise \<^verbatim>\<open>encodeUTF8(arr: Uint8Array): string\<close> and
  \<^verbatim>\<open>decodeUTF8(s: string): Uint8Array\<close>. \<^verbatim>\<open>crypto.ts\<close> imports \<^verbatim>\<open>decodeUTF8\<close>, never calls
  it, and passes the serialized \<^emph>\<open>string\<close> to \<^verbatim>\<open>encodeUTF8\<close>. That function is
  \<^verbatim>\<open>
  util.encodeUTF8 = function(arr) {
    var i, s = [];
    for (i = 0; i < arr.length; i++) s.push(String.fromCharCode(arr[i]));
    return decodeURIComponent(escape(s.join('')));
  };
  \<close>
  On a string, \<^verbatim>\<open>arr[i]\<close> is a one-character string, which \<^verbatim>\<open>String.fromCharCode\<close> converts
  to a number first: a decimal digit becomes the character with that code, every other
  character the character with code 0. The result is again a string, of the same length. On
  \<^verbatim>\<open>undefined\<close> the read of \<^verbatim>\<open>arr.length\<close> throws.
\<close>

definition encodeUTF8 :: "jsstring option \<Rightarrow> error + jsdata" where
  "encodeUTF8 arr =
     (case arr of
        None \<Rightarrow> Inl (TypeError ''Cannot read properties of undefined'')
      | Some s \<Rightarrow> Inr (Text (map (\<lambda>c. if 0x30 \<le> c \<and> c \<le> 0x39 then c - 0x30 else 0) s)))"

definition nacl_sign_keyPair_fromSecretKey :: "bytes \<Rightarrow> error + bytes \<times> bytes" where
  "nacl_sign_keyPair_fromSecretKey secretKey =
     (if length secretKey \<noteq> 64 then Inl (Error ''bad secret key size'')
      else Inr (drop 32 secretKey, secretKey))"

definition nacl_sign_detached :: "platform \<Rightarrow> jsdata \<Rightarrow> bytes \<Rightarrow> error + bytes" where
  "nacl_sign_detached P msg secretKey =
     (case msg of
        Text s \<Rightarrow> Inl (TypeError ''unexpected type, use Uint8Array'')
      | Uint8Array m \<Rightarrow>
          if length secretKey \<noteq> 64 then Inl (Error ''bad secret key size'')
          else Inr (crypto_sign P m secretKey))"

definition nacl_sign_detached_verify ::
  "platform \<Rightarrow> jsdata \<Rightarrow> bytes \<Rightarrow> bytes \<Rightarrow> error + bool" where
  "nacl_sign_detached_verify P msg sig publicKey =
     (case msg of
        Text s \<Rightarrow> Inl (TypeError ''unexpected type, use Uint8Array'')
      | Uint8Array m \<Rightarrow>
          if length sig \<noteq> 64 then Inl (Error ''bad signature size'')
          else if length publicKey \<noteq> 32 then Inl (Error ''bad public key size'')
          else Inr (crypto_sign_open P m sig publicKey))"

section \<open>types.ts\<close>

text \<open>
  The interfaces of \<^verbatim>\<open>types.ts\<close> as records (a field whose name is taken in HOL or by
  another record carries a prefix), and the JavaScript object each typed value denotes, with
  its properties in declaration order; an absent optional field is an absent property.
  \<^verbatim>\<open>config\<close> is \<^verbatim>\<open>Record<string, unknown>\<close>: any properties at all.
\<close>

datatype Persistence = Ephemeral | Session | Permanent
datatype PiiHandling = Strict | Moderate | Permissive
datatype SourceType = Google_drive | Notion | Dropbox | Local_file

record UserProfile =
  display_name :: jsstring
  tone :: jsstring
  domains :: "jsstring list"

record Policies =
  allow_writeback :: bool
  persistence :: Persistence
  pii_handling :: PiiHandling

record DataSource =
  ds_id :: jsstring
  ds_name :: jsstring
  ds_type :: SourceType
  ds_config :: "(jsstring \<times> jsval) list"
  ds_last_accessed :: "jsstring option"

record MemoryEntry =
  mem_id :: jsstring
  mem_content :: jsstring
  mem_created_at :: jsstring
  mem_tags :: "jsstring list option"
  mem_source :: "jsstring option"

record ContextKey =
  version :: jsstring
  ck_id :: jsstring
  created_at :: jsstring
  updated_at :: jsstring
  profile :: UserProfile
  policies :: Policies
  data_sources :: "DataSource list"
  memories :: "MemoryEntry list"

record kdf_params =
  algorithm :: jsstring
  iterations :: jsnum
  memory :: jsnum
  parallelism :: jsnum

record EncryptedContextKey =
  encrypted_data :: jsstring
  iv :: jsstring
  salt :: jsstring
  kdf_params :: kdf_params

fun Persistence_string :: "Persistence \<Rightarrow> jsstring" where
  "Persistence_string Ephemeral = str ''ephemeral''"
| "Persistence_string Session = str ''session''"
| "Persistence_string Permanent = str ''permanent''"

fun PiiHandling_string :: "PiiHandling \<Rightarrow> jsstring" where
  "PiiHandling_string Strict = str ''strict''"
| "PiiHandling_string Moderate = str ''moderate''"
| "PiiHandling_string Permissive = str ''permissive''"

fun SourceType_string :: "SourceType \<Rightarrow> jsstring" where
  "SourceType_string Google_drive = str ''google_drive''"
| "SourceType_string Notion = str ''notion''"
| "SourceType_string Dropbox = str ''dropbox''"
| "SourceType_string Local_file = str ''local_file''"

definition UserProfile_object :: "UserProfile \<Rightarrow> jsval" where
  "UserProfile_object p =
     JObject [(str ''display_name'', JString (display_name p)),
              (str ''tone'', JString (tone p)),
              (str ''domains'', JArray (map JString (domains p)))]"

definition Policies_object :: "Policies \<Rightarrow> jsval" where
  "Policies_object p =
     JObject [(str ''allow_writeback'', JBool (allow_writeback p)),
              (str ''persistence'', JString (Persistence_string (persistence p))),
              (str ''pii_handling'', JString (PiiHandling_string (pii_handling p)))]"

definition DataSource_object :: "DataSource \<Rightarrow> jsval" where
  "DataSource_object d =
     JObject ([(str ''id'', JString (ds_id d)),
               (str ''name'', JString (ds_name d)),
               (str ''type'', JString (SourceType_string (ds_type d))),
               (str ''config'', JObject (ds_config d))]
              @ (case ds_last_accessed d of
                   None \<Rightarrow> []
                 | Some t \<Rightarrow> [(str ''last_accessed'', JString t)]))"

definition MemoryEntry_object :: "MemoryEntry \<Rightarrow> jsval" where
  "MemoryEntry_object m =
     JObject ([(str ''id'', JString (mem_id m)),
               (str ''content'', JString (mem_content m)),
               (str ''created_at'', JString (mem_created_at m))]
              @ (case mem_tags m of
                   None \<Rightarrow> []
                 | Some ts \<Rightarrow> [(str ''tags'', JArray (map JString ts))])
              @ (case mem_source m of
                   None \<Rightarrow> []
                 | Some src \<Rightarrow> [(str ''source'', JString src)]))"

definition ContextKey_object :: "ContextKey \<Rightarrow> jsval" where
  "ContextKey_object r =
     JObject [(str ''version'', JString (version r)),
              (str ''id'', JString (ck_id r)),
              (str ''created_at'', JString (created_at r)),
              (str ''updated_at'', JString (updated_at r)),
              (str ''profile'', UserProfile_object (profile r)),
              (str ''policies'', Policies_object (policies r)),
              (str ''data_sources'', JArray (map DataSource_object (data_sources r))),
              (str ''memories'', JArray (map MemoryEntry_object (memories r)))]"

text \<open>
  A \<^verbatim>\<open>SignedContextKey\<close> stays a plain object: \<^verbatim>\<open>decryptContextKey\<close> returns whatever
  \<^verbatim>\<open>JSON.parse\<close> produced under an unchecked cast, and \<^verbatim>\<open>verifyContextKey\<close> reads its
  properties at run time.
\<close>

definition SignedContextKey_object :: "jsval \<Rightarrow> jsstring \<Rightarrow> jsstring \<Rightarrow> jsval" where
  "SignedContextKey_object data signature public_key =
     JObject [(str ''data'', data),
              (str ''signature'', JString signature),
              (str ''public_key'', JString public_key)]"

section \<open>crypto.ts: signing\<close>

text \<open>
  The expression \<^verbatim>\<open>JSON.stringify(x, Object.keys(x).sort())\<close> that \<^verbatim>\<open>signContextKey\<close> and
  \<^verbatim>\<open>verifyContextKey\<close> both evaluate, the first on \<^verbatim>\<open>contextKey\<close>, the second on
  \<^verbatim>\<open>signedKey.data\<close>.
\<close>

definition serialized :: "jsval \<Rightarrow> error + jsstring option" where
  "serialized contextKey =
     bindE (Object_keys contextKey) (\<lambda>keys. Inr (JSON_stringify contextKey (Some (sort keys))))"

definition signContextKey :: "platform \<Rightarrow> jsval \<Rightarrow> jsstring \<Rightarrow> error + jsval" where
  "signContextKey P contextKey privateKey =
     bindE (decodeBase64 P (JString privateKey)) (\<lambda>privateKeyBytes.
     bindE (nacl_sign_keyPair_fromSecretKey privateKeyBytes) (\<lambda>keyPair.
     bindE (serialized contextKey) (\<lambda>serialized.
     bindE (encodeUTF8 serialized) (\<lambda>message.
     bindE (nacl_sign_detached P message privateKeyBytes) (\<lambda>signature.
     Inr (SignedContextKey_object contextKey
            (encodeBase64 P signature) (encodeBase64 P (fst keyPair))))))))"

text \<open>The body of the \<^verbatim>\<open>try\<close> block, and the function with its \<^verbatim>\<open>catch\<close>.\<close>

definition verify_body :: "platform \<Rightarrow> jsval \<Rightarrow> error + bool" where
  "verify_body P signedKey =
     bindE (Get signedKey (str ''public_key'')) (\<lambda>pk.
     bindE (decodeBase64 P pk) (\<lambda>publicKey.
     bindE (Get signedKey (str ''signature'')) (\<lambda>sg.
     bindE (decodeBase64 P sg) (\<lambda>signature.
     bindE (Get signedKey (str ''data'')) (\<lambda>data.
     bindE (serialized data) (\<lambda>serialized.
     bindE (encodeUTF8 serialized) (\<lambda>message.
     nacl_sign_detached_verify P message signature publicKey)))))))"

definition verifyContextKey :: "platform \<Rightarrow> jsval \<Rightarrow> bool" where
  "verifyContextKey P signedKey =
     (case verify_body P signedKey of Inl error \<Rightarrow> False | Inr ok \<Rightarrow> ok)"

section \<open>crypto.ts: password encryption\<close>

text \<open>
  \<^verbatim>\<open>TextEncoder.encode\<close>: UTF-8 of the string read as a sequence of code points, every lone
  surrogate replaced by U+FFFD.
\<close>

definition utf8_bytes :: "nat \<Rightarrow> bytes" where
  "utf8_bytes cp =
     (if cp < 0x80 then [of_nat cp]
      else if cp < 0x800 then [of_nat (0xC0 + cp div 64), of_nat (0x80 + cp mod 64)]
      else if cp < 0x10000 then
        [of_nat (0xE0 + cp div 4096), of_nat (0x80 + cp div 64 mod 64), of_nat (0x80 + cp mod 64)]
      else
        [of_nat (0xF0 + cp div 262144), of_nat (0x80 + cp div 4096 mod 64),
         of_nat (0x80 + cp div 64 mod 64), of_nat (0x80 + cp mod 64)])"

fun TextEncoder_encode :: "jsstring \<Rightarrow> bytes" where
  "TextEncoder_encode [] = []"
| "TextEncoder_encode (c # cs) =
     (if is_lead c then
        (case cs of
           [] \<Rightarrow> [0xEF, 0xBF, 0xBD]
         | d # ds \<Rightarrow>
             if is_trail d
             then utf8_bytes (0x10000 + (unat c - 0xD800) * 0x400 + (unat d - 0xDC00))
                    @ TextEncoder_encode ds
             else [0xEF, 0xBF, 0xBD] @ TextEncoder_encode cs)
      else if is_trail c then [0xEF, 0xBF, 0xBD] @ TextEncoder_encode cs
      else utf8_bytes (unat c) @ TextEncoder_encode cs)"

text \<open>
  \<^verbatim>\<open>deriveKey\<close>: the algorithm object it hands to \<^verbatim>\<open>crypto.subtle.deriveKey\<close>, and the call.
  The base key is the raw import of the encoded password; the derived key is a 256-bit
  AES-GCM key.
\<close>

definition deriveKey_algorithm :: "bytes \<Rightarrow> jsnum \<Rightarrow> Pbkdf2Params" where
  "deriveKey_algorithm saltBytes iterationCount =
     Pbkdf2Params (str ''PBKDF2'') saltBytes iterationCount (str ''SHA-256'')"

definition deriveKey :: "platform \<Rightarrow> jsstring \<Rightarrow> bytes \<Rightarrow> jsnum \<Rightarrow> error + bytes" where
  "deriveKey P password saltBytes iterationCount =
     (let passwordBuffer = TextEncoder_encode password;
          baseKey = passwordBuffer
      in subtle_deriveKey P (deriveKey_algorithm saltBytes iterationCount)
           baseKey (str ''AES-GCM'', 256))"

text \<open>
  \<^verbatim>\<open>encryptContextKey\<close>. The 32 salt bytes and the 12 nonce bytes that the code draws from
  \<^verbatim>\<open>crypto.getRandomValues\<close> are arguments. \<^verbatim>\<open>TextEncoder.encode(undefined)\<close> is the empty
  byte array.
\<close>

definition encryptContextKey ::
  "platform \<Rightarrow> bytes \<Rightarrow> bytes \<Rightarrow> jsval \<Rightarrow> jsstring \<Rightarrow> error + EncryptedContextKey" where
  "encryptContextKey P saltBytes ivBytes signedKey password =
     (let iterationCount = Integer False 100000 in
      bindE (deriveKey P password saltBytes iterationCount) (\<lambda>key.
      let data = TextEncoder_encode
                   (case JSON_stringify signedKey None of None \<Rightarrow> [] | Some s \<Rightarrow> s)
      in bindE (subtle_encrypt P ivBytes key data) (\<lambda>encrypted.
      Inr \<lparr>encrypted_data = encodeBase64 P encrypted,
           iv = encodeBase64 P ivBytes,
           salt = encodeBase64 P saltBytes,
           kdf_params = \<lparr>algorithm = str ''argon2id'',
                         iterations = iterationCount,
                         memory = Integer False 65536,
                         parallelism = Integer False 1\<rparr>\<rparr>)))"

definition decryptContextKey ::
  "platform \<Rightarrow> EncryptedContextKey \<Rightarrow> jsstring \<Rightarrow> error + jsval" where
  "decryptContextKey P encryptedKey password =
     bindE (decodeBase64 P (JString (salt encryptedKey))) (\<lambda>saltBytes.
     bindE (decodeBase64 P (JString (iv encryptedKey))) (\<lambda>ivBytes.
     bindE (decodeBase64 P (JString (encrypted_data encryptedKey))) (\<lambda>encryptedData.
     bindE (deriveKey P password saltBytes (iterations (kdf_params encryptedKey))) (\<lambda>key.
     bindE (subtle_decrypt P ivBytes key encryptedData) (\<lambda>decrypted.
     JSON_parse P (TextDecoder_decode P decrypted))))))"

section \<open>Records that differ in non-finite numbers only\<close>

text \<open>The value with \<^verbatim>\<open>null\<close> in place of every NaN and infinity, at any depth.\<close>

fun null_nonfinite :: "jsval \<Rightarrow> jsval" where
  "null_nonfinite (JNumber n) = (if is_finite n then JNumber n else JNull)"
| "null_nonfinite (JArray xs) = JArray (map null_nonfinite xs)"
| "null_nonfinite (JObject ps) = JObject (map (\<lambda>(k, v). (k, null_nonfinite v)) ps)"
| "null_nonfinite v = v"

section \<open>Records that are equal field for field\<close>

text \<open>
  Two values have the same fields when they differ at most in the order in which the
  properties of their objects, at any depth, were inserted: scalars are equal, arrays have
  the same fields position by position, and objects have the same keys, each once, with
  values that again have the same fields.
\<close>

inductive same_fields :: "jsval \<Rightarrow> jsval \<Rightarrow> bool" where
  same_undefined: "same_fields JUndefined JUndefined"
| same_null: "same_fields JNull JNull"
| same_bool: "same_fields (JBool b) (JBool b)"
| same_number: "same_fields (JNumber n) (JNumber n)"
| same_string: "same_fields (JString s) (JString s)"
| same_array: "list_all2 same_fields xs ys \<Longrightarrow> same_fields (JArray xs) (JArray ys)"
| same_object:
    "distinct (map fst ps) \<Longrightarrow> distinct (map fst qs) \<Longrightarrow>
     set (map fst ps) = set (map fst qs) \<Longrightarrow>
     (\<forall>k v w. map_of ps k = Some v \<longrightarrow> map_of qs k = Some w \<longrightarrow> same_fields v w) \<Longrightarrow>
     same_fields (JObject ps) (JObject qs)"

text \<open>The value of \<^verbatim>\<open>Object.keys(contextKey).sort()\<close> for every typed \<^verbatim>\<open>ContextKey\<close>.\<close>

definition sorted_keys :: "jsstring list" where
  "sorted_keys =
     [str ''created_at'', str ''data_sources'', str ''id'', str ''memories'',
      str ''policies'', str ''profile'', str ''updated_at'', str ''version'']"

section \<open>Sample data and a reference platform\<close>

text \<open>
  The record of the concrete scenario (display name Ana, tone concise, one domain), an
  envelope around it, that envelope's JSON text, and the same record written with its
  properties in another order.
\<close>

definition ana :: ContextKey where
  "ana = \<lparr>version = str ''1.0.0'', ck_id = str ''k1'',
          created_at = str ''2024-01-01T00:00:00Z'', updated_at = str ''2024-01-01T00:00:00Z'',
          profile = \<lparr>display_name = str ''Ana'', tone = str ''concise'', domains = [str ''ml'']\<rparr>,
          policies = \<lparr>allow_writeback = False, persistence = Session, pii_handling = Strict\<rparr>,
          data_sources = [], memories = []\<rparr>"

definition envelope0 :: jsval where
  "envelope0 = SignedContextKey_object (ContextKey_object ana) (str ''c2ln'') (str ''cGs='')"

definition text0 :: jsstring where
  \<open>text0 = str ''{"data":{"version":"1.0.0","id":"k1","created_at":"2024-01-01T00:00:00Z","updated_at":"2024-01-01T00:00:00Z","profile":{"display_name":"Ana","tone":"concise","domains":["ml"]},"policies":{"allow_writeback":false,"persistence":"session","pii_handling":"strict"},"data_sources":[],"memories":[]},"signature":"c2ln","public_key":"cGs="}''\<close>

definition shuffled :: jsval where
  "shuffled =
     JObject [(str ''memories'', JArray []),
              (str ''data_sources'', JArray []),
              (str ''policies'',
                 JObject [(str ''pii_handling'', JString (str ''strict'')),
                          (str ''allow_writeback'', JBool False),
                          (str ''persistence'', JString (str ''session''))]),
              (str ''profile'',
                 JObject [(str ''domains'', JArray [JString (str ''ml'')]),
                          (str ''display_name'', JString (str ''Ana'')),
                          (str ''tone'', JString (str ''concise''))]),
              (str ''updated_at'', JString (str ''2024-01-01T00:00:00Z'')),
              (str ''created_at'', JString (str ''2024-01-01T00:00:00Z'')),
              (str ''id'', JString (str ''k1'')),
              (str ''version'', JString (str ''1.0.0''))]"

text \<open>A data source whose \<^verbatim>\<open>config\<close> holds one number, and the record and envelope with it.\<close>

definition weighted :: "jsnum \<Rightarrow> DataSource" where
  "weighted w =
     \<lparr>ds_id = str ''d1'', ds_name = str ''Drive'', ds_type = Google_drive,
      ds_config = [(str ''weight'', JNumber w)], ds_last_accessed = None\<rparr>"

definition ana_weighted :: "jsnum \<Rightarrow> ContextKey" where
  "ana_weighted w = ana\<lparr>data_sources := [weighted w]\<rparr>"

definition envelope_weighted :: "jsnum \<Rightarrow> jsval" where
  "envelope_weighted w =
     SignedContextKey_object (ContextKey_object (ana_weighted w)) (str ''c2ln'') (str ''cGs='')"

definition text_weighted :: jsstring where
  \<open>text_weighted = str ''{"created_at":"2024-01-01T00:00:00Z","data_sources":[{"id":"d1"}],"id":"k1","memories":[],"policies":{},"profile":{},"updated_at":"2024-01-01T00:00:00Z","version":"1.0.0"}''\<close>

definition salt0 :: bytes where
  "salt0 = [1, 2, 3, 4, 5, 6, 7, 8, 9, 10, 11, 12, 13, 14, 15, 16,
            17, 18, 19, 20, 21, 22, 23, 24, 25, 26, 27, 28, 29, 30, 31, 32]"

definition iv0 :: bytes where
  "iv0 = [101, 102, 103, 104, 105, 106, 107, 108, 109, 110, 111, 112]"

definition password0 :: jsstring where
  "password0 = str ''correct-horse''"

definition secretKey0 :: bytes where
  "secretKey0 = salt0 @ salt0"

text \<open>
  One executable instance of the platform record, to run the model on the sample data. It
  is not the production primitives: its codec writes each byte as one code unit, its key
  derivation concatenates password and salt, its cipher prefixes the plaintext with the key
  (each byte marked, then an end mark) and the nonce and checks that prefix on opening, its
  decoder reads one byte as one code unit, and its parser knows the text of \<open>envelope0\<close> only.
  It has the properties the theorems below ask of a platform: the codec and the cipher
  invert, different password bytes derive different keys, and opening under any other key
  is rejected.
\<close>

definition frame :: "bytes \<Rightarrow> bytes" where
  "frame key = concat (map (\<lambda>b. [1, b]) key) @ [0]"

definition reference_platform :: platform where
  "reference_platform =
     \<lparr>encodeBase64 = map ucast,
      decodeBase64 =
        (\<lambda>v. case v of
               JString s \<Rightarrow>
                 if list_all (\<lambda>c. c < 0x100) s then Inr (map ucast s)
                 else Inl (TypeError ''invalid encoding'')
             | _ \<Rightarrow> Inl (TypeError ''invalid encoding'')),
      crypto_sign = (\<lambda>m secretKey. take 64 (m @ replicate 64 0)),
      crypto_sign_open = (\<lambda>m sig publicKey. sig = take 64 (m @ replicate 64 0)),
      subtle_deriveKey =
        (\<lambda>alg baseKey keyType.
           case alg_iterations alg of
             Integer neg n \<Rightarrow>
               if \<not> neg \<and> 0 < n then Inr (baseKey @ alg_salt alg) else Inl OperationError
           | _ \<Rightarrow> Inl (TypeError ''iterations'')),
      subtle_encrypt = (\<lambda>nonce key plaintext. Inr (frame key @ nonce @ plaintext)),
      subtle_decrypt =
        (\<lambda>nonce key ciphertext.
           if take (length (frame key) + length nonce) ciphertext = frame key @ nonce
           then Inr (drop (length (frame key) + length nonce) ciphertext)
           else Inl OperationError),
      TextDecoder_decode = map ucast,
      JSON_parse = (\<lambda>s. if s = text0 then Inr envelope0 else Inl SyntaxError)\<rparr>"

text \<open>What \<open>encryptContextKey\<close> returns on the reference platform for \<open>envelope0\<close>.\<close>

definition sealed0 :: "jsstring \<Rightarrow> EncryptedContextKey" where
  "sealed0 password =
     \<lparr>encrypted_data =
        map ucast (frame (TextEncoder_encode password @ salt0) @ iv0 @ TextEncoder_encode text0),
      iv = map ucast iv0,
      salt = map ucast salt0,
      kdf_params = \<lparr>algorithm = str ''argon2id'', iterations = Integer False 100000,
                    memory = Integer False 65536, parallelism = Integer False 1\<rparr>\<rparr>"

section \<open>Results and property lookups\<close>

lemma bindE_Inl [simp]: "bindE (Inl e) f = Inl e"
  by (simp add: bindE_def)

lemma bindE_Inr [simp]: "bindE (Inr x) f = f x"
  by (simp add: bindE_def)

lemma bindE_Inr_iff: "bindE m f = Inr y \<longleftrightarrow> (\<exists>x. m = Inr x \<and> f x = Inr y)"
  by (cases m) simp_all

lemma serialized_object:
  "serialized (JObject ps) = Inr (JSON_stringify (JObject ps) (Some (sort (map fst ps))))"
  by (simp add: serialized_def)

lemma JSON_stringify_object: "\<exists>s. JSON_stringify (JObject ps) K = Some s"
  by (simp add: JSON_stringify_def)

section \<open>Signing and verifying\<close>

text \<open>
  The message that reaches \<^verbatim>\<open>nacl.sign.detached\<close> and \<^verbatim>\<open>nacl.sign.detached.verify\<close> is
  what \<^verbatim>\<open>encodeUTF8\<close> returned: a string. Both reject it before any key is used.
\<close>

lemma encodeUTF8_Text: "encodeUTF8 s = Inr m \<Longrightarrow> \<exists>t. m = Text t"
  by (auto simp: encodeUTF8_def split: option.splits)

lemma nacl_sign_detached_Text:
  "nacl_sign_detached P (Text t) secretKey = Inl (TypeError ''unexpected type, use Uint8Array'')"
  by (simp add: nacl_sign_detached_def)

lemma nacl_sign_detached_verify_Text:
  "nacl_sign_detached_verify P (Text t) sig publicKey =
     Inl (TypeError ''unexpected type, use Uint8Array'')"
  by (simp add: nacl_sign_detached_verify_def)

lemma signContextKey_not_Inr: "signContextKey P contextKey privateKey \<noteq> Inr envelope"
  by (auto simp: signContextKey_def bindE_Inr_iff nacl_sign_detached_Text dest!: encodeUTF8_Text)

lemma verify_body_throws: "\<exists>e. verify_body P signedKey = Inl e"
proof (cases "verify_body P signedKey")
  case (Inr ok)
  then have False
    by (auto simp: verify_body_def bindE_Inr_iff nacl_sign_detached_verify_Text
        dest!: encodeUTF8_Text)
  then show ?thesis ..
qed simp

lemma byte_bound: "unat (b :: 8 word) < 256"
  using unsigned_less [of b, where 'a = nat] by simp

lemma ucast_byte_less: "(ucast (b :: 8 word) :: 16 word) < 0x100"
  using byte_bound [of b]
  by (simp add: word_less_nat_alt unsigned_ucast_eq take_bit_nat_eq_self)

lemma ucast_byte_id: "ucast (ucast (b :: 8 word) :: 16 word) = b"
  by (simp add: ucast_down_ucast_id is_down)

lemma reference_base64:
  "decodeBase64 reference_platform (JString (encodeBase64 reference_platform b)) = Inr b"
  by (simp add: reference_platform_def list_all_iff ucast_byte_less ucast_byte_id comp_def)

text \<open>
  Claim C6 (verifying immediately after signing succeeds, for every record and key pair):
  the code does not get that far. For every record object and every private key that
  decodes to the 64 bytes of an Ed25519 secret key, \<open>signContextKey\<close> throws the
  \<^verbatim>\<open>TypeError\<close> of \<^verbatim>\<open>nacl.sign.detached\<close>, so there is no envelope to verify.
\<close>

theorem signContextKey_throws_TypeError:
  assumes "decodeBase64 P (JString privateKey) = Inr secretKey" and "length secretKey = 64"
  shows "signContextKey P (JObject ps) privateKey =
           Inl (TypeError ''unexpected type, use Uint8Array'')"
proof -
  obtain s where "JSON_stringify (JObject ps) (Some (sort (map fst ps))) = Some s"
    using JSON_stringify_object by blast
  with assms show ?thesis
    by (simp add: signContextKey_def serialized_object nacl_sign_keyPair_fromSecretKey_def
        encodeUTF8_def nacl_sign_detached_Text)
qed

theorem signContextKey_throws_TypeError_witness:
  "decodeBase64 reference_platform (JString (encodeBase64 reference_platform secretKey0))
     = Inr secretKey0
   \<and> length secretKey0 = 64
   \<and> signContextKey reference_platform (ContextKey_object ana)
        (encodeBase64 reference_platform secretKey0) =
          Inl (TypeError ''unexpected type, use Uint8Array'')"
proof -
  have len: "length secretKey0 = 64" by (simp add: secretKey0_def salt0_def)
  from signContextKey_throws_TypeError [OF reference_base64 len] reference_base64 len
  show ?thesis by (simp add: ContextKey_object_def)
qed

text \<open>
  Claim C1 (tamper property): an envelope whose embedded record was changed after signing is
  rejected. Whatever record, signature and public key the envelope carries,
  \<open>verifyContextKey\<close> returns false. (So does it for an envelope nobody touched: the
  verdict never depends on the record. What the signed text would cover is worked out in
  the section on the signed text.)
\<close>

theorem tampered_envelope_is_rejected:
  "verifyContextKey P (SignedContextKey_object tampered sg pk) = False"
  using verify_body_throws [of P "SignedContextKey_object tampered sg pk"]
  by (auto simp: verifyContextKey_def)

text \<open>
  Claim C7 (\<open>verifyContextKey\<close> returns false and never throws, on malformed signature
  bytes, wrong-length keys or a failed verification): for every input value, of any shape,
  the body of the \<^verbatim>\<open>try\<close> block ends in an exception, the \<^verbatim>\<open>catch\<close> turns it into the
  result, and the result is false.
\<close>

theorem verifyContextKey_false_never_throws:
  "verifyContextKey P signedKey = False \<and> (\<exists>e. verify_body P signedKey = Inl e)"
  using verify_body_throws [of P signedKey]
  by (auto simp: verifyContextKey_def)

text \<open>
  Claim C2 (sign, seal and open with the same password returns the record, verified): the
  composition never returns an envelope on any platform, because its first step throws.
\<close>

theorem sign_encrypt_decrypt_never_returns:
  "bindE (signContextKey P r privateKey)
     (\<lambda>signedKey. bindE (encryptContextKey P saltBytes ivBytes signedKey password)
        (\<lambda>blob. decryptContextKey P blob password)) \<noteq> Inr envelope"
  by (simp add: bindE_Inr_iff signContextKey_not_Inr)

text \<open>
  Claim C10 (the outcome of \<open>decryptContextKey\<close> does not depend on the \<^verbatim>\<open>algorithm\<close>,
  \<^verbatim>\<open>memory\<close> and \<^verbatim>\<open>parallelism\<close> fields of \<^verbatim>\<open>kdf_params\<close>): two blobs that differ in
  those three fields only decrypt to the same outcome, for every password.
\<close>

theorem decrypt_ignores_kdf_labels:
  "decryptContextKey P
     (blob\<lparr>kdf_params := (kdf_params blob)\<lparr>algorithm := a, memory := m, parallelism := q\<rparr>\<rparr>)
     password
   = decryptContextKey P blob password"
  by (simp add: decryptContextKey_def)


section \<open>The signed text\<close>

lemma members_lookup:
  "map_of (map (\<lambda>(k, v). (k, f v)) ps) P = map_option f (map_of ps P)"
  by (induction ps) auto

lemma object_text_cong:
  "(\<And>P. map_of ms P = map_of ns P) \<Longrightarrow> object_text (Some K) ms = object_text (Some K) ns"
  by (simp add: object_text_def)

text \<open>
  Under a property list an object is written from its key-value map alone, so two values
  with the same fields have the same text, whatever the list.
\<close>

lemma same_fields_property:
  "same_fields v w \<Longrightarrow> SerializeJSONProperty (Some K) v = SerializeJSONProperty (Some K) w"
proof (induction rule: same_fields.induct)
  case (same_array xs ys)
  then have "map (SerializeJSONProperty (Some K)) xs = map (SerializeJSONProperty (Some K)) ys"
    by (induction rule: list_all2_induct) auto
  then show ?case by simp
next
  case (same_object ps qs)
  have "map_of (map (\<lambda>(k, v). (k, SerializeJSONProperty (Some K) v)) ps) P
      = map_of (map (\<lambda>(k, v). (k, SerializeJSONProperty (Some K) v)) qs) P" for P
  proof (cases "P \<in> set (map fst ps)")
    case True
    then obtain v where v: "map_of ps P = Some v"
      by (metis map_of_eq_None_iff not_Some_eq set_map)
    from True same_object.hyps(3) have "P \<in> set (map fst qs)" by simp
    then obtain w where w: "map_of qs P = Some w"
      by (metis map_of_eq_None_iff not_Some_eq set_map)
    from same_object.IH v w
    have "SerializeJSONProperty (Some K) v = SerializeJSONProperty (Some K) w" by blast
    with v w show ?thesis by (simp add: members_lookup)
  next
    case False
    with same_object.hyps(3) have "P \<notin> set (map fst qs)" by simp
    with False have "map_of ps P = None" "map_of qs P = None"
      by (simp_all add: map_of_eq_None_iff)
    then show ?thesis by (simp add: members_lookup)
  qed
  then have "object_text (Some K) (map (\<lambda>(k, v). (k, SerializeJSONProperty (Some K) v)) ps)
           = object_text (Some K) (map (\<lambda>(k, v). (k, SerializeJSONProperty (Some K) v)) qs)"
    by (rule object_text_cong)
  then show ?case by simp
qed simp_all

lemma same_keys_sorted:
  assumes "distinct xs" "distinct ys" "set xs = set ys"
  shows "sort xs = sort (ys :: jsstring list)"
  using assms by (intro sorted_distinct_set_unique) simp_all

lemma same_fields_keys:
  assumes "same_fields r1 r2"
  shows "map_sum id sort (Object_keys r1) = map_sum id sort (Object_keys r2)"
  using assms
proof (cases rule: same_fields.cases)
  case (same_array xs ys)
  then show ?thesis by (simp add: list_all2_lengthD)
next
  case (same_object ps qs)
  then have "sort (map fst ps) = sort (map fst qs)" by (intro same_keys_sorted)
  with same_object show ?thesis by simp
qed simp_all

text \<open>
  Claim C8 (records that are equal field for field but were built with different insertion
  orders serialize to the same bytes): the string that is signed,
  \<^verbatim>\<open>JSON.stringify(r, Object.keys(r).sort())\<close>, is the same for both. Array elements are
  compared position by position, so their order is kept.
\<close>

theorem serialized_order_independent:
  assumes "same_fields r1 r2"
  shows "serialized r1 = serialized r2"
proof -
  note keys = same_fields_keys [OF assms]
  from assms have body: "JSON_stringify r1 (Some K) = JSON_stringify r2 (Some K)" for K
    by (simp add: JSON_stringify_def same_fields_property)
  from keys body show ?thesis
    by (cases "Object_keys r1"; cases "Object_keys r2") (simp_all add: serialized_def)
qed

lemma same_objectI:
  assumes "distinct (map fst ps)" "distinct (map fst qs)" "length ps = length qs"
    and "list_all (\<lambda>(k, v). case map_of qs k of None \<Rightarrow> False | Some w \<Rightarrow> same_fields v w) ps"
  shows "same_fields (JObject ps) (JObject qs)"
proof (rule same_object [OF assms(1,2)])
  have sub: "set (map fst ps) \<subseteq> set (map fst qs)"
  proof
    fix k assume "k \<in> set (map fst ps)"
    then obtain v where "(k, v) \<in> set ps" by auto
    with assms(4) have "map_of qs k \<noteq> None" by (auto simp: list_all_iff split: option.splits)
    then show "k \<in> set (map fst qs)" by (simp add: map_of_eq_None_iff)
  qed
  have "card (set (map fst ps)) = length (map fst ps)"
    "card (set (map fst qs)) = length (map fst qs)"
    using assms(1,2) by (simp_all only: distinct_card)
  with assms(3) have "card (set (map fst ps)) = card (set (map fst qs))"
    by simp
  with sub show "set (map fst ps) = set (map fst qs)"
    by (intro card_subset_eq) simp_all
  show "\<forall>k v w. map_of ps k = Some v \<longrightarrow> map_of qs k = Some w \<longrightarrow> same_fields v w"
  proof (intro allI impI)
    fix k v w
    assume v: "map_of ps k = Some v" and w: "map_of qs k = Some w"
    from v have "(k, v) \<in> set ps" by (rule map_of_SomeD)
    with assms(4) w show "same_fields v w" by (auto simp: list_all_iff)
  qed
qed

lemma shuffled_same_fields: "same_fields (ContextKey_object ana) shuffled"
  unfolding ContextKey_object_def UserProfile_object_def Policies_object_def ana_def shuffled_def
  apply (rule same_objectI; simp add: str_def same_fields.intros)
  apply (intro conjI; rule same_objectI; simp add: same_fields.intros)
  done

theorem serialized_order_independent_witness:
  "same_fields (ContextKey_object ana) shuffled
   \<and> serialized (ContextKey_object ana) = serialized shuffled"
  using serialized_order_independent [OF shuffled_same_fields] shuffled_same_fields by simp

text \<open>
  The text that is signed for a typed record, written out. Under the property list of the
  eight top-level key names a nested object keeps only the members whose key is one of
  those names: \<^verbatim>\<open>profile\<close> and \<^verbatim>\<open>policies\<close> are written \<^verbatim>\<open>{}\<close>, a data source keeps its
  \<^verbatim>\<open>id\<close>, a memory entry its \<^verbatim>\<open>created_at\<close> and \<^verbatim>\<open>id\<close>.
\<close>

lemma ContextKey_keys:
  "sort (map fst [(str ''version'', a), (str ''id'', b), (str ''created_at'', c),
      (str ''updated_at'', d), (str ''profile'', e), (str ''policies'', f),
      (str ''data_sources'', g), (str ''memories'', h)]) = sorted_keys"
  by (simp add: str_def sorted_keys_def)

lemma sorted_keys_PropertyList:
  "fold (\<lambda>k acc. if k \<in> set acc then acc else acc @ [k]) sorted_keys [] = sorted_keys"
  by (simp add: sorted_keys_def str_def)

lemmas eval_text =
  str_def sorted_keys_def object_text_def List.map_filter_def
  QuoteJSONString_def is_lead_def is_trail_def

lemma profile_text:
  \<open>SerializeJSONProperty (Some sorted_keys) (UserProfile_object p) = Some (str ''{}'')\<close>
  by (simp add: UserProfile_object_def eval_text)

lemma policies_text:
  \<open>SerializeJSONProperty (Some sorted_keys) (Policies_object p) = Some (str ''{}'')\<close>
  by (simp add: Policies_object_def eval_text)

lemma source_text:
  \<open>SerializeJSONProperty (Some sorted_keys) (DataSource_object d) =
     Some (str ''{"id":'' @ QuoteJSONString (ds_id d) @ str ''}'')\<close>
  by (cases "ds_last_accessed d") (simp_all add: DataSource_object_def eval_text)

lemma memory_text:
  \<open>SerializeJSONProperty (Some sorted_keys) (MemoryEntry_object m) =
     Some (str ''{"created_at":'' @ QuoteJSONString (mem_created_at m) @
           str '',"id":'' @ QuoteJSONString (mem_id m) @ str ''}'')\<close>
  by (cases "mem_tags m"; cases "mem_source m") (simp_all add: MemoryEntry_object_def eval_text)

lemma signed_text:
  \<open>serialized (ContextKey_object r) =
     Inr (Some
       (str ''{"created_at":'' @ QuoteJSONString (created_at r) @
        str '',"data_sources":'' @
        array_text (map (\<lambda>d. Some (str ''{"id":'' @ QuoteJSONString (ds_id d) @ str ''}''))
                     (data_sources r)) @
        str '',"id":'' @ QuoteJSONString (ck_id r) @
        str '',"memories":'' @
        array_text (map (\<lambda>m. Some (str ''{"created_at":'' @ QuoteJSONString (mem_created_at m) @
                                     str '',"id":'' @ QuoteJSONString (mem_id m) @ str ''}''))
                     (memories r)) @
        str '',"policies":{},"profile":{},"updated_at":'' @ QuoteJSONString (updated_at r) @
        str '',"version":'' @ QuoteJSONString (version r) @ str ''}''))\<close>
proof -
  have members: \<open>SerializeJSONProperty (Some sorted_keys) (ContextKey_object r) =
     Some (object_text (Some sorted_keys)
       [(str ''version'', Some (QuoteJSONString (version r))),
        (str ''id'', Some (QuoteJSONString (ck_id r))),
        (str ''created_at'', Some (QuoteJSONString (created_at r))),
        (str ''updated_at'', Some (QuoteJSONString (updated_at r))),
        (str ''profile'', Some (str ''{}'')),
        (str ''policies'', Some (str ''{}'')),
        (str ''data_sources'', Some (array_text
           (map (\<lambda>d. Some (str ''{"id":'' @ QuoteJSONString (ds_id d) @ str ''}''))
              (data_sources r)))),
        (str ''memories'', Some (array_text
           (map (\<lambda>m. Some (str ''{"created_at":'' @ QuoteJSONString (mem_created_at m) @
                                     str '',"id":'' @ QuoteJSONString (mem_id m) @ str ''}''))
              (memories r))))])\<close>
    by (simp add: ContextKey_object_def profile_text policies_text source_text memory_text
        comp_def)
  have keys: "serialized (ContextKey_object r) =
      Inr (SerializeJSONProperty (Some sorted_keys) (ContextKey_object r))"
    unfolding ContextKey_object_def serialized_object ContextKey_keys JSON_stringify_def
      option.map sorted_keys_PropertyList ..
  show ?thesis
    unfolding keys members by (simp add: eval_text)
qed

text \<open>
  So the signed text does not mention the profile or the policies at all, nor a data
  source's name, type and configuration, nor a memory entry's content, tags and source.
\<close>

lemma signed_text_ignores_profile_and_policies:
  "serialized (ContextKey_object (r\<lparr>profile := p, policies := q\<rparr>)) =
   serialized (ContextKey_object r)"
  by (simp add: signed_text)

lemma signed_text_ignores_memory_content:
  "serialized (ContextKey_object (r\<lparr>memories := map (\<lambda>m. m\<lparr>mem_content := c m\<rparr>) (memories r)\<rparr>)) =
   serialized (ContextKey_object r)"
  by (simp add: signed_text comp_def)

text \<open>
  Claim C4 (a record holding a value that does not round-trip, such as NaN, makes
  serialization or signing fail with a ValidationError): it does not. The record whose data
  source has \<^verbatim>\<open>config = {weight: NaN}\<close> is serialized without any error, to the same text as
  the record whose weight is 1.
\<close>

theorem nan_record_serialized_counterexample:
  "serialized (ContextKey_object (ana_weighted NaN)) = Inr (Some text_weighted)
   \<and> serialized (ContextKey_object (ana_weighted (Integer False 1))) = Inr (Some text_weighted)"
  by (simp add: signed_text ana_weighted_def ana_def weighted_def text_weighted_def eval_text
      array_text_def)

text \<open>
  A NaN or an infinity is written exactly as \<^verbatim>\<open>null\<close> is, under every property list and at
  every depth.
\<close>

lemma null_nonfinite_property:
  "SerializeJSONProperty K (null_nonfinite v) = SerializeJSONProperty K v"
proof (induction v)
  case (JNumber n)
  then show ?case by (cases n) simp_all
next
  case (JArray xs)
  then have "map (SerializeJSONProperty K) (map null_nonfinite xs)
           = map (SerializeJSONProperty K) xs"
    by (induction xs) simp_all
  then show ?case by (simp del: map_map)
next
  case (JObject ps)
  have member: "SerializeJSONProperty K (null_nonfinite v) = SerializeJSONProperty K v"
    if "(k, v) \<in> set ps" for k v
    using JObject.IH [OF that, of v] by (simp add: snds.simps)
  have "map (\<lambda>(k, v). (k, SerializeJSONProperty K v))
               (map (\<lambda>(k, v). (k, null_nonfinite v)) ps)
           = map (\<lambda>(k, v). (k, SerializeJSONProperty K v)) ps"
    unfolding map_map by (rule map_cong [OF refl]) (auto simp: member)
  then show ?case by (simp del: map_map)
qed simp_all

lemma null_nonfinite_keys:
  "Object_keys (null_nonfinite (JObject ps)) = Object_keys (JObject ps)"
  by (simp add: comp_def case_prod_unfold)

text \<open>
  Claim C4 as amended: a record that holds a NaN or a non-finite number is not rejected on
  that account, and no ValidationError exists. The number is silently coerced: the record
  is serialized exactly as the record with \<^verbatim>\<open>null\<close> in the place of each such number, in the
  text that is signed and in the text that is sealed, so the two records are sealed into the
  same blob.
\<close>

theorem nonfinite_number_written_as_null:
  "serialized (null_nonfinite (JObject ps)) = serialized (JObject ps)
   \<and> JSON_stringify (null_nonfinite v) replacer = JSON_stringify v replacer
   \<and> encryptContextKey P saltBytes ivBytes (null_nonfinite v) password
       = encryptContextKey P saltBytes ivBytes v password"
proof -
  have same: "JSON_stringify (null_nonfinite w) R = JSON_stringify w R" for w R
    by (simp add: JSON_stringify_def null_nonfinite_property)
  have "serialized (null_nonfinite (JObject ps)) = serialized (JObject ps)"
    unfolding serialized_def null_nonfinite_keys by (simp only: same)
  with same show ?thesis
    by (simp add: encryptContextKey_def)
qed

section \<open>Sealing and opening\<close>

lemma encrypt_blob:
  assumes "encryptContextKey P saltBytes ivBytes signedKey password = Inr blob"
  obtains key c where
    "deriveKey P password saltBytes (Integer False 100000) = Inr key"
    "subtle_encrypt P ivBytes key
       (TextEncoder_encode (case JSON_stringify signedKey None of None \<Rightarrow> [] | Some s \<Rightarrow> s))
       = Inr c"
    "blob = \<lparr>encrypted_data = encodeBase64 P c, iv = encodeBase64 P ivBytes,
             salt = encodeBase64 P saltBytes,
             kdf_params = \<lparr>algorithm = str ''argon2id'', iterations = Integer False 100000,
                           memory = Integer False 65536, parallelism = Integer False 1\<rparr>\<rparr>"
  using assms by (auto simp: encryptContextKey_def Let_def bindE_Inr_iff)

text \<open>
  Opening inverts sealing wherever the platform's codec, cipher, decoder and parser invert
  their counterparts on the data at hand.
\<close>

lemma decrypt_encrypt:
  assumes b64: "\<forall>b. decodeBase64 P (JString (encodeBase64 P b)) = Inr b"
    and aead: "\<forall>n k m c. subtle_encrypt P n k m = Inr c \<longrightarrow> subtle_decrypt P n k c = Inr m"
    and enc: "encryptContextKey P saltBytes ivBytes signedKey password = Inr blob"
    and json: "JSON_stringify signedKey None = Some s"
    and utf8: "TextDecoder_decode P (TextEncoder_encode s) = s"
    and parse: "JSON_parse P s = Inr signedKey"
  shows "decryptContextKey P blob password = Inr signedKey"
proof -
  from enc obtain key c where
    key: "deriveKey P password saltBytes (Integer False 100000) = Inr key" and
    c: "subtle_encrypt P ivBytes key
         (TextEncoder_encode (case JSON_stringify signedKey None of None \<Rightarrow> [] | Some s \<Rightarrow> s))
         = Inr c" and
    blob: "blob = \<lparr>encrypted_data = encodeBase64 P c, iv = encodeBase64 P ivBytes,
             salt = encodeBase64 P saltBytes,
             kdf_params = \<lparr>algorithm = str ''argon2id'', iterations = Integer False 100000,
                           memory = Integer False 65536, parallelism = Integer False 1\<rparr>\<rparr>"
    by (rule encrypt_blob)
  from c json have "subtle_encrypt P ivBytes key (TextEncoder_encode s) = Inr c" by simp
  with aead have "subtle_decrypt P ivBytes key c = Inr (TextEncoder_encode s)" by blast
  with b64 key utf8 parse show ?thesis
    by (simp add: decryptContextKey_def blob)
qed

subsection \<open>The reference platform on the sample envelope\<close>

lemma ascii_ucast: "(c :: 16 word) < 0x80 \<Longrightarrow> ucast (ucast c :: 8 word) = c"
  by (simp add: word_eq_iff_unsigned [where 'a = nat] word_less_nat_alt unsigned_ucast_eq
      unsigned_take_bit_eq take_bit_nat_eq_self)

lemma ascii_encode:
  "list_all (\<lambda>c. c < 0x80) s \<Longrightarrow> TextEncoder_encode s = map ucast s"
  by (induction s)
     (auto simp: is_lead_def is_trail_def utf8_bytes_def word_less_nat_alt word_le_nat_alt)

lemma ascii_decode:
  "list_all (\<lambda>c. c < 0x80) s \<Longrightarrow> map ucast (map ucast s :: bytes) = (s :: jsstring)"
  by (induction s) (simp_all add: ascii_ucast)

lemma text0_ascii: "list_all (\<lambda>c. c < 0x80) text0"
  by (simp add: text0_def str_def)

lemma text0_eq: "JSON_stringify envelope0 None = Some text0"
  by (simp add: envelope0_def SignedContextKey_object_def ContextKey_object_def
      UserProfile_object_def Policies_object_def ana_def text0_def JSON_stringify_def str_def
      List.map_filter_def QuoteJSONString_def is_lead_def is_trail_def array_text_def
      object_text_def)

lemma reference_base64_all:
  "\<forall>b. decodeBase64 reference_platform (JString (encodeBase64 reference_platform b)) = Inr b"
  by (simp add: reference_base64)

lemma reference_aead:
  "\<forall>n k m c. subtle_encrypt reference_platform n k m = Inr c
      \<longrightarrow> subtle_decrypt reference_platform n k c = Inr m"
  by (auto simp: reference_platform_def)







lemma reference_text0:
  "TextDecoder_decode reference_platform (TextEncoder_encode text0) = text0"
proof -
  have "map ucast (map ucast text0 :: bytes) = text0"
    by (rule ascii_decode [OF text0_ascii])
  then show ?thesis
    by (simp add: reference_platform_def ascii_encode [OF text0_ascii] del: map_map)
qed

lemma reference_parse: "JSON_parse reference_platform text0 = Inr envelope0"
  by (simp add: reference_platform_def)

lemma reference_deriveKey:
  "deriveKey reference_platform password saltBytes (Integer False 100000) =
     Inr (TextEncoder_encode password @ saltBytes)"
  by (simp add: deriveKey_def deriveKey_algorithm_def reference_platform_def)

lemma reference_encrypt:
  "encryptContextKey reference_platform salt0 iv0 envelope0 password = Inr (sealed0 password)"
  by (simp add: encryptContextKey_def Let_def reference_deriveKey text0_eq sealed0_def)
     (simp add: reference_platform_def)


text \<open>
  Claim C3 (the \<^verbatim>\<open>kdf_params\<close> of a sealed blob exactly match the key derivation that was
  executed): they do not. On the reference platform the sample envelope is sealed into a
  blob whose \<^verbatim>\<open>algorithm\<close> field differs from the name of the algorithm that
  \<^verbatim>\<open>deriveKey\<close> asked \<^verbatim>\<open>crypto.subtle\<close> to run.
\<close>

theorem kdf_label_mismatch_counterexample:
  "encryptContextKey reference_platform salt0 iv0 envelope0 password0 = Inr (sealed0 password0)
   \<and> algorithm (kdf_params (sealed0 password0))
       \<noteq> alg_name (deriveKey_algorithm salt0 (iterations (kdf_params (sealed0 password0))))"
  by (simp add: reference_encrypt sealed0_def deriveKey_algorithm_def str_def)

text \<open>
  Claim C3 as amended: the recorded iteration count is the one the derivation ran with at
  seal time, and \<open>decryptContextKey\<close> replays the recorded salt and iteration count into the
  same PBKDF2 / SHA-256 derivation: for any password it is that derivation followed by the
  cipher on the sealed ciphertext, and with the sealing password it opens with the very key
  the blob was sealed under. The other three fields are constants: the label \<^verbatim>\<open>argon2id\<close>,
  and a memory and a parallelism figure that no derivation reads.
\<close>

theorem kdf_iterations_replayed:
  assumes "encryptContextKey P saltBytes ivBytes signedKey password = Inr blob"
    and "\<forall>b. decodeBase64 P (JString (encodeBase64 P b)) = Inr b"
  shows "kdf_params blob =
           \<lparr>algorithm = str ''argon2id'', iterations = Integer False 100000,
            memory = Integer False 65536, parallelism = Integer False 1\<rparr>
       \<and> (\<exists>key c.
            subtle_deriveKey P
              (Pbkdf2Params (str ''PBKDF2'') saltBytes (iterations (kdf_params blob))
                 (str ''SHA-256''))
              (TextEncoder_encode password) (str ''AES-GCM'', 256) = Inr key
          \<and> subtle_encrypt P ivBytes key
               (TextEncoder_encode
                  (case JSON_stringify signedKey None of None \<Rightarrow> [] | Some s \<Rightarrow> s)) = Inr c
          \<and> (\<forall>p. decryptContextKey P blob p =
                 bindE (subtle_deriveKey P
                          (Pbkdf2Params (str ''PBKDF2'') saltBytes
                             (iterations (kdf_params blob)) (str ''SHA-256''))
                          (TextEncoder_encode p) (str ''AES-GCM'', 256))
                   (\<lambda>k. bindE (subtle_decrypt P ivBytes k c)
                      (\<lambda>decrypted. JSON_parse P (TextDecoder_decode P decrypted))))
          \<and> decryptContextKey P blob password =
               bindE (subtle_decrypt P ivBytes key c)
                 (\<lambda>decrypted. JSON_parse P (TextDecoder_decode P decrypted)))"
proof -
  from assms(1) obtain key c where
    key: "deriveKey P password saltBytes (Integer False 100000) = Inr key" and
    c: "subtle_encrypt P ivBytes key
         (TextEncoder_encode (case JSON_stringify signedKey None of None \<Rightarrow> [] | Some s \<Rightarrow> s))
         = Inr c" and
    blob: "blob = \<lparr>encrypted_data = encodeBase64 P c, iv = encodeBase64 P ivBytes,
             salt = encodeBase64 P saltBytes,
             kdf_params = \<lparr>algorithm = str ''argon2id'', iterations = Integer False 100000,
                           memory = Integer False 65536, parallelism = Integer False 1\<rparr>\<rparr>"
    by (rule encrypt_blob)
  have replay: "decryptContextKey P blob p =
      bindE (subtle_deriveKey P
               (Pbkdf2Params (str ''PBKDF2'') saltBytes (Integer False 100000) (str ''SHA-256''))
               (TextEncoder_encode p) (str ''AES-GCM'', 256))
        (\<lambda>k. bindE (subtle_decrypt P ivBytes k c)
           (\<lambda>decrypted. JSON_parse P (TextDecoder_decode P decrypted)))" for p
    using assms(2) by (simp add: decryptContextKey_def blob deriveKey_def deriveKey_algorithm_def)
  from key have derived: "subtle_deriveKey P
      (Pbkdf2Params (str ''PBKDF2'') saltBytes (Integer False 100000) (str ''SHA-256''))
      (TextEncoder_encode password) (str ''AES-GCM'', 256) = Inr key"
    by (simp add: deriveKey_def deriveKey_algorithm_def)
  have "decryptContextKey P blob password =
      bindE (subtle_decrypt P ivBytes key c)
        (\<lambda>decrypted. JSON_parse P (TextDecoder_decode P decrypted))"
    by (simp add: replay derived)
  with derived c replay show ?thesis
    by (auto simp: blob)
qed

theorem kdf_iterations_replayed_witness:
  "encryptContextKey reference_platform salt0 iv0 envelope0 password0 = Inr (sealed0 password0)
   \<and> (\<forall>b. decodeBase64 reference_platform (JString (encodeBase64 reference_platform b)) = Inr b)
   \<and> kdf_params (sealed0 password0) =
       \<lparr>algorithm = str ''argon2id'', iterations = Integer False 100000,
        memory = Integer False 65536, parallelism = Integer False 1\<rparr>
   \<and> (\<exists>key c.
        subtle_deriveKey reference_platform
          (Pbkdf2Params (str ''PBKDF2'') salt0 (iterations (kdf_params (sealed0 password0)))
             (str ''SHA-256''))
          (TextEncoder_encode password0) (str ''AES-GCM'', 256) = Inr key
      \<and> subtle_encrypt reference_platform iv0 key
           (TextEncoder_encode
              (case JSON_stringify envelope0 None of None \<Rightarrow> [] | Some s \<Rightarrow> s)) = Inr c
      \<and> (\<forall>p. decryptContextKey reference_platform (sealed0 password0) p =
             bindE (subtle_deriveKey reference_platform
                      (Pbkdf2Params (str ''PBKDF2'') salt0
                         (iterations (kdf_params (sealed0 password0))) (str ''SHA-256''))
                      (TextEncoder_encode p) (str ''AES-GCM'', 256))
               (\<lambda>k. bindE (subtle_decrypt reference_platform iv0 k c)
                  (\<lambda>decrypted. JSON_parse reference_platform
                     (TextDecoder_decode reference_platform decrypted))))
      \<and> decryptContextKey reference_platform (sealed0 password0) password0 =
           bindE (subtle_decrypt reference_platform iv0 key c)
             (\<lambda>decrypted. JSON_parse reference_platform
                (TextDecoder_decode reference_platform decrypted)))"
proof (intro conjI)
  note replayed =
    kdf_iterations_replayed [OF reference_encrypt reference_base64_all, of password0]
  show "encryptContextKey reference_platform salt0 iv0 envelope0 password0
          = Inr (sealed0 password0)"
    by (rule reference_encrypt)
  show "\<forall>b. decodeBase64 reference_platform (JString (encodeBase64 reference_platform b)) = Inr b"
    by (rule reference_base64_all)
  from replayed show "kdf_params (sealed0 password0) =
       \<lparr>algorithm = str ''argon2id'', iterations = Integer False 100000,
        memory = Integer False 65536, parallelism = Integer False 1\<rparr>"
    by (rule conjunct1)
  from replayed show "\<exists>key c.
        subtle_deriveKey reference_platform
          (Pbkdf2Params (str ''PBKDF2'') salt0 (iterations (kdf_params (sealed0 password0)))
             (str ''SHA-256''))
          (TextEncoder_encode password0) (str ''AES-GCM'', 256) = Inr key
      \<and> subtle_encrypt reference_platform iv0 key
           (TextEncoder_encode
              (case JSON_stringify envelope0 None of None \<Rightarrow> [] | Some s \<Rightarrow> s)) = Inr c
      \<and> (\<forall>p. decryptContextKey reference_platform (sealed0 password0) p =
             bindE (subtle_deriveKey reference_platform
                      (Pbkdf2Params (str ''PBKDF2'') salt0
                         (iterations (kdf_params (sealed0 password0))) (str ''SHA-256''))
                      (TextEncoder_encode p) (str ''AES-GCM'', 256))
               (\<lambda>k. bindE (subtle_decrypt reference_platform iv0 k c)
                  (\<lambda>decrypted. JSON_parse reference_platform
                     (TextDecoder_decode reference_platform decrypted))))
      \<and> decryptContextKey reference_platform (sealed0 password0) password0 =
           bindE (subtle_decrypt reference_platform iv0 key c)
             (\<lambda>decrypted. JSON_parse reference_platform
                (TextDecoder_decode reference_platform decrypted))"
    by (rule conjunct2)
qed

text \<open>
  Claim C9 (for every envelope, valid signature or not, opening what was sealed with the
  same password returns the envelope unchanged): not for every one. The two sample
  envelopes whose data source weighs NaN and infinity are different values with the same
  JSON text, so on every platform they are sealed into the same blob, and no opening can
  return both.
\<close>

theorem nonfinite_envelopes_collide_counterexample:
  "envelope_weighted NaN \<noteq> envelope_weighted PosInfinity
   \<and> (\<forall>P saltBytes ivBytes password.
         encryptContextKey P saltBytes ivBytes (envelope_weighted NaN) password =
         encryptContextKey P saltBytes ivBytes (envelope_weighted PosInfinity) password)
   \<and> (\<exists>blob. encryptContextKey reference_platform salt0 iv0 (envelope_weighted NaN) password0
               = Inr blob)"
proof -
  have "JSON_stringify (envelope_weighted NaN) None
      = JSON_stringify (envelope_weighted PosInfinity) None"
    by (simp add: JSON_stringify_def envelope_weighted_def SignedContextKey_object_def
        ContextKey_object_def DataSource_object_def ana_weighted_def weighted_def)
  then have same: "encryptContextKey P saltBytes ivBytes (envelope_weighted NaN) password =
         encryptContextKey P saltBytes ivBytes (envelope_weighted PosInfinity) password"
    for P saltBytes ivBytes password
    by (simp add: encryptContextKey_def)
  have differ: "envelope_weighted NaN \<noteq> envelope_weighted PosInfinity"
    by (simp add: envelope_weighted_def SignedContextKey_object_def ContextKey_object_def
        DataSource_object_def ana_weighted_def weighted_def)
  have "\<exists>blob. encryptContextKey reference_platform salt0 iv0 (envelope_weighted NaN) password0
               = Inr blob"
    by (simp add: encryptContextKey_def Let_def reference_deriveKey)
       (simp add: reference_platform_def)
  with same differ show ?thesis by blast
qed

text \<open>
  Claim C9 as amended: on a platform whose base64 codec and cipher invert, opening what was
  sealed with the same password returns the envelope unchanged whenever the envelope
  survives JSON and UTF-8 (its text decodes to itself and parses to itself). Neither
  function looks at the signature: replacing the signing primitives of the platform changes
  nothing, so an envelope with an invalid signature is returned like any other.
\<close>

theorem decrypt_inverts_encrypt:
  assumes "\<forall>b. decodeBase64 P (JString (encodeBase64 P b)) = Inr b"
    and "\<forall>n k m c. subtle_encrypt P n k m = Inr c \<longrightarrow> subtle_decrypt P n k c = Inr m"
    and "encryptContextKey P saltBytes ivBytes signedKey password = Inr blob"
    and "JSON_stringify signedKey None = Some s"
    and "TextDecoder_decode P (TextEncoder_encode s) = s"
    and "JSON_parse P s = Inr signedKey"
  shows "decryptContextKey P blob password = Inr signedKey
       \<and> decryptContextKey (P\<lparr>crypto_sign := f, crypto_sign_open := g\<rparr>) blob password
           = decryptContextKey P blob password
       \<and> encryptContextKey (P\<lparr>crypto_sign := f, crypto_sign_open := g\<rparr>) saltBytes ivBytes
             signedKey password
           = encryptContextKey P saltBytes ivBytes signedKey password"
  using decrypt_encrypt [OF assms]
  by (simp add: decryptContextKey_def encryptContextKey_def Let_def deriveKey_def)

theorem decrypt_inverts_encrypt_witness:
  "(\<forall>b. decodeBase64 reference_platform (JString (encodeBase64 reference_platform b)) = Inr b)
   \<and> encryptContextKey reference_platform salt0 iv0 envelope0 password0 = Inr (sealed0 password0)
   \<and> JSON_stringify envelope0 None = Some text0
   \<and> TextDecoder_decode reference_platform (TextEncoder_encode text0) = text0
   \<and> JSON_parse reference_platform text0 = Inr envelope0
   \<and> decryptContextKey reference_platform (sealed0 password0) password0 = Inr envelope0"
proof -
  from decrypt_inverts_encrypt [OF reference_base64_all reference_aead reference_encrypt
      text0_eq reference_text0 reference_parse]
  have "decryptContextKey reference_platform (sealed0 password0) password0 = Inr envelope0"
    by blast
  with reference_base64_all show ?thesis
    by (simp add: reference_encrypt text0_eq reference_text0 reference_parse)
qed





end
